theory Spec2Isabelle
  imports Main "HOL-Library.Sublist" "HOL-Library.AList"
begin

section \<open>Python strings\<close>

text \<open>
  A Python \<^verbatim>\<open>str\<close> is a sequence of Unicode code points; a code point is a natural
  number.  \<open>py\<close> reads an ASCII literal of the source as such a sequence.
\<close>

type_synonym pystr = "nat list"

definition py :: "string \<Rightarrow> pystr" where
  "py s = map of_char s"

text \<open>
  \<^verbatim>\<open>str.isspace\<close> on one code point: the characters that \<^verbatim>\<open>strip()\<close>,
  \<^verbatim>\<open>lstrip()\<close> and \<^verbatim>\<open>rstrip()\<close> remove when called without an argument.
\<close>

definition is_space :: "nat \<Rightarrow> bool" where
  "is_space c \<longleftrightarrow>
     (9 \<le> c \<and> c \<le> 13) \<or> (28 \<le> c \<and> c \<le> 32) \<or> c = 133 \<or> c = 160 \<or> c = 5760 \<or>
     (8192 \<le> c \<and> c \<le> 8202) \<or> c = 8232 \<or> c = 8233 \<or> c = 8239 \<or> c = 8287 \<or> c = 12288"

definition py_lstrip :: "pystr \<Rightarrow> pystr" where
  "py_lstrip s = dropWhile is_space s"

definition py_rstrip :: "pystr \<Rightarrow> pystr" where
  "py_rstrip s = rev (dropWhile is_space (rev s))"

definition py_strip :: "pystr \<Rightarrow> pystr" where
  "py_strip s = py_rstrip (py_lstrip s)"

text \<open>\<^verbatim>\<open>s.rstrip('/')\<close>: the trailing occurrences of one given character are removed.\<close>

definition py_rstrip_char :: "nat \<Rightarrow> pystr \<Rightarrow> pystr" where
  "py_rstrip_char c s = rev (dropWhile (\<lambda>x. x = c) (rev s))"

text \<open>
  \<^verbatim>\<open>str.lower\<close>.  Only the ASCII letters are mapped; the case mapping of the other code
  points is not modelled.  The source calls \<open>lower\<close> only to test for the prefix
  \<^verbatim>\<open>'data:'\<close>, and no code point outside ASCII lower-cases to a string that starts
  with \<^verbatim>\<open>d\<close>, \<^verbatim>\<open>a\<close>, \<^verbatim>\<open>t\<close> or a colon; header names, which are compared
  the same way, are ASCII.
\<close>

definition lower_cp :: "nat \<Rightarrow> nat" where
  "lower_cp c = (if 65 \<le> c \<and> c \<le> 90 then c + 32 else c)"

definition py_lower :: "pystr \<Rightarrow> pystr" where
  "py_lower s = map lower_cp s"

definition py_startswith :: "pystr \<Rightarrow> pystr \<Rightarrow> bool" where
  "py_startswith s p = prefix p s"

definition py_endswith :: "pystr \<Rightarrow> pystr \<Rightarrow> bool" where
  "py_endswith s p = suffix p s"

text \<open>\<^verbatim>\<open>sub in s\<close> on two strings: \<open>sub\<close> occurs in \<open>s\<close> as a contiguous piece.\<close>

definition py_contains :: "pystr \<Rightarrow> pystr \<Rightarrow> bool" where
  "py_contains sub s = list_ex (prefix sub) (suffixes s)"

text \<open>\<^verbatim>\<open>sep.join(xs)\<close>.\<close>

fun py_join :: "pystr \<Rightarrow> pystr list \<Rightarrow> pystr" where
  "py_join sep [] = []"
| "py_join sep [x] = x"
| "py_join sep (x # y # ys) = x @ sep @ py_join sep (y # ys)"

text \<open>\<^verbatim>\<open>s.replace(c, '')\<close> for a one-character \<open>c\<close>: every occurrence is deleted.\<close>

definition py_remove_char :: "nat \<Rightarrow> pystr \<Rightarrow> pystr" where
  "py_remove_char c s = filter (\<lambda>x. x \<noteq> c) s"

text \<open>
  \<^verbatim>\<open>s.split(sep)\<close> for a non-empty separator: the occurrences of \<open>sep\<close> are found
  from the left and do not overlap; \<open>cur\<close> is the piece read so far.  (Python raises
  ValueError on an empty separator; the source only splits on the literal
  \<^verbatim>\<open>'\n\n'\<close>.)
\<close>

function split_from :: "pystr \<Rightarrow> pystr \<Rightarrow> pystr \<Rightarrow> pystr list" where
  "split_from sep cur s =
     (if s = [] then [cur]
      else if sep \<noteq> [] \<and> prefix sep s then cur # split_from sep [] (drop (length sep) s)
      else split_from sep (cur @ [hd s]) (tl s))"
  by pat_completeness auto
termination
  by (relation "measure (\<lambda>(sep, cur, s). length s)") auto

declare split_from.simps [simp del]

definition py_split :: "pystr \<Rightarrow> pystr \<Rightarrow> pystr list" where
  "py_split sep s = split_from sep [] s"

text \<open>
  \<^verbatim>\<open>str.splitlines\<close>: a line ends at each of the line boundaries below, \<^verbatim>\<open>\r\n\<close>
  counts as one boundary, and no empty line is reported after a final boundary.
\<close>

definition is_linebreak :: "nat \<Rightarrow> bool" where
  "is_linebreak c \<longleftrightarrow>
     (10 \<le> c \<and> c \<le> 13) \<or> (28 \<le> c \<and> c \<le> 30) \<or> c = 133 \<or> c = 8232 \<or> c = 8233"

fun lines_from :: "pystr \<Rightarrow> pystr \<Rightarrow> pystr list" where
  "lines_from cur [] = (if cur = [] then [] else [cur])"
| "lines_from cur (c # cs) =
     (if is_linebreak c then
        cur # (case cs of
                 [] \<Rightarrow> []
               | d # ds \<Rightarrow> if c = 13 \<and> d = 10 then lines_from [] ds else lines_from [] cs)
      else lines_from (cur @ [c]) cs)"

definition py_splitlines :: "pystr \<Rightarrow> pystr list" where
  "py_splitlines s = lines_from [] s"

text \<open>\<^verbatim>\<open>str(n)\<close> for an integer: its decimal digits, with a sign when negative.\<close>

fun str_nat :: "nat \<Rightarrow> pystr" where
  "str_nat n = (if n < 10 then [48 + n] else str_nat (n div 10) @ [48 + n mod 10])"

declare str_nat.simps [simp del]

definition str_int :: "int \<Rightarrow> pystr" where
  "str_int i = (if i < 0 then 45 # str_nat (nat (- i)) else str_nat (nat i))"

section \<open>Python values\<close>

text \<open>
  The values that \<^verbatim>\<open>json.loads\<close> produces and that parameter mappings hold:
  \<open>JNull\<close> is \<^verbatim>\<open>None\<close>; a dict is an association list in insertion order,
  read with \<open>map_of\<close> (\<^verbatim>\<open>d.get(k)\<close>, \<^verbatim>\<open>k in d\<close>) and written with
  \<open>AList.update\<close> (\<^verbatim>\<open>{**d, k: v}\<close>).  No arithmetic is done on floats, which
  are carried as a mantissa and a binary exponent, an infinity with its sign, or NaN.
\<close>

datatype pyfloat = Finite int int | Infinity bool | NaN

datatype json =
    JNull
  | JBool bool
  | JInt int
  | JFloat pyfloat
  | JStr pystr
  | JList "json list"
  | JDict "(pystr \<times> json) list"

type_synonym pydict = "(pystr \<times> json) list"

text \<open>The truth value Python gives a value in \<^verbatim>\<open>if v\<close>, \<^verbatim>\<open>v and w\<close>, \<^verbatim>\<open>v or w\<close>.\<close>

fun truthy :: "json \<Rightarrow> bool" where
  "truthy JNull = False"
| "truthy (JBool b) = b"
| "truthy (JInt i) = (i \<noteq> 0)"
| "truthy (JFloat f) = (case f of Finite m e \<Rightarrow> m \<noteq> 0 | _ \<Rightarrow> True)"
| "truthy (JStr s) = (s \<noteq> [])"
| "truthy (JList xs) = (xs \<noteq> [])"
| "truthy (JDict d) = (d \<noteq> [])"

text \<open>
  The library functions the module calls but does not define: \<^verbatim>\<open>json.loads\<close>
  (\<open>None\<close> is JSONDecodeError), \<^verbatim>\<open>json.dumps\<close>, and the built-in \<^verbatim>\<open>str()\<close>
  that an f-string applies to an interpolated value.
\<close>

record pylib =
  loads :: "pystr \<Rightarrow> json option"
  dumps :: "json \<Rightarrow> pystr"
  str_of :: "json \<Rightarrow> pystr"

section \<open>Errors\<close>

text \<open>
  Every error the module raises is an \<^verbatim>\<open>EntrezSDKError\<close> whose message is an
  f-string; one constructor per raise site keeps the interpolated values, and
  \<open>error_text\<close> is the message.  \<open>TypeError\<close> and \<open>AttributeError\<close> are the
  interpreter's own exceptions, which the module does not catch.
\<close>

datatype sdk_error =
    HTTPError pystr int pystr
  | MCPError pystr pystr
  | PayloadError pystr pystr
  | NetworkError pystr pystr
  | NoSSEPayload

datatype exn = EntrezSDKError sdk_error | TypeError | AttributeError

fun error_text :: "sdk_error \<Rightarrow> pystr" where
  "error_text (HTTPError label status message) =
     label @ py '' HTTP '' @ str_int status @ py '': '' @ message"
| "error_text (MCPError label error_msg) = label @ py '' MCP Error: '' @ error_msg"
| "error_text (PayloadError label message) = label @ py '' '' @ message"
| "error_text (NetworkError label message) = label @ py '' Network error: '' @ message"
| "error_text NoSSEPayload = py ''No JSON payload found in SSE response''"

section \<open>The client and the HTTP exchange\<close>

record entrez_sdk =
  base_url :: pystr
  session_id :: "pystr option"
  protocol_version :: pystr
  client_info :: json
  client_capabilities :: json

text \<open>\<^verbatim>\<open>EntrezSDK.__init__\<close>.\<close>

definition init :: "pystr \<Rightarrow> entrez_sdk" where
  "init url =
     \<lparr> base_url = py_rstrip_char 47 url,
       session_id = None,
       protocol_version = py ''2025-11-25'',
       client_info = JDict [(py ''name'', JStr (py ''entrez-mcp-python'')),
                            (py ''version'', JStr (py ''1.0.0''))],
       client_capabilities = JDict [(py ''tools'', JDict [])] \<rparr>"

text \<open>
  What \<^verbatim>\<open>session.post\<close> gives back.  The exchange itself is the network's; the
  model takes its outcome as an argument: either the call raises
  \<^verbatim>\<open>aiohttp.ClientError\<close> (with the text of \<^verbatim>\<open>str(e)\<close>), or there is a response
  with a status, a reason (optional in aiohttp), headers, and a body whose reading may
  again raise \<^verbatim>\<open>ClientError\<close>.
\<close>

record response =
  status :: int
  reason :: "pystr option"
  headers :: "(pystr \<times> pystr) list"
  body :: "pystr + pystr"

datatype exchange = PostFailed pystr | Response response

text \<open>
  \<^verbatim>\<open>response.headers.get(name)\<close>: aiohttp's header mapping compares names without
  regard to case and returns the first value stored under the name.
\<close>

definition headers_get :: "(pystr \<times> pystr) list \<Rightarrow> pystr \<Rightarrow> pystr option" where
  "headers_get hs name = map_of (map (\<lambda>(k, v). (py_lower k, v)) hs) (py_lower name)"

definition format_context :: "pystr \<Rightarrow> pystr" where
  "format_context context =
     (let stripped = py_strip context in
      if py_startswith stripped (py ''['') \<and> py_endswith stripped (py '']'') then stripped
      else py ''['' @ stripped @ py '']'')"

text \<open>\<^verbatim>\<open>if self.session_id\<close>: a session id is held when it is a non-empty string.\<close>

definition has_session :: "entrez_sdk \<Rightarrow> bool" where
  "has_session self = (case session_id self of None \<Rightarrow> False | Some s \<Rightarrow> s \<noteq> [])"

definition build_headers :: "entrez_sdk \<Rightarrow> (pystr \<times> pystr) list" where
  "build_headers self =
     (let headers = [(py ''Content-Type'', py ''application/json''),
                     (py ''Accept'', py ''application/json, text/event-stream''),
                     (py ''MCP-Protocol-Version'', protocol_version self)] in
      case session_id self of
        None \<Rightarrow> headers
      | Some s \<Rightarrow> if s \<noteq> [] then AList.update (py ''Mcp-Session-Id'') s headers else headers)"

definition extract_session_id :: "entrez_sdk \<Rightarrow> response \<Rightarrow> entrez_sdk" where
  "extract_session_id self response =
     (case headers_get (headers response) (py ''mcp-session-id'') of
        None \<Rightarrow> self
      | Some new_session_id \<Rightarrow>
          if new_session_id \<noteq> [] then self\<lparr>session_id := Some new_session_id\<rparr> else self)"

text \<open>
  The arguments of \<^verbatim>\<open>session.post\<close> in \<^verbatim>\<open>_request_payload\<close>; \<open>now\<close> is
  \<^verbatim>\<open>int(time.time() * 1000)\<close>.
\<close>

record http_request =
  request_url :: pystr
  request_headers :: "(pystr \<times> pystr) list"
  request_json :: json

definition post_request :: "entrez_sdk \<Rightarrow> int \<Rightarrow> pystr \<Rightarrow> json \<Rightarrow> http_request" where
  "post_request self now method params =
     \<lparr> request_url = base_url self @ py ''/mcp'',
       request_headers = build_headers self,
       request_json = JDict [(py ''jsonrpc'', JStr (py ''2.0'')),
                             (py ''id'', JInt now),
                             (py ''method'', JStr method),
                             (py ''params'', params)] \<rparr>"

section \<open>Decoding a response body\<close>

text \<open>
  The inner loop of \<^verbatim>\<open>_parse_sse_payload\<close>: the data lines of one segment.  A
  line counts when its stripped, lower-cased text starts with \<^verbatim>\<open>data:\<close>; its
  value is what follows the first colon of the stripped line, with \<^verbatim>\<open>lstrip()\<close>
  applied.  (\<^verbatim>\<open>stripped.split(':', 1)\<close> has two parts whenever the test holds, so
  the unpacking into two names cannot fail.)
\<close>

definition is_data_line :: "pystr \<Rightarrow> bool" where
  "is_data_line stripped = py_startswith (py_lower stripped) (py ''data:'')"

definition after_colon :: "pystr \<Rightarrow> pystr" where
  "after_colon stripped = drop 1 (dropWhile (\<lambda>c. c \<noteq> 58) stripped)"

fun collect_data_lines :: "pystr list \<Rightarrow> pystr list" where
  "collect_data_lines [] = []"
| "collect_data_lines (line # rest) =
     (let stripped = py_strip line in
      if is_data_line stripped
      then py_lstrip (after_colon stripped) # collect_data_lines rest
      else collect_data_lines rest)"

definition data_lines :: "pystr \<Rightarrow> pystr list" where
  "data_lines segment = collect_data_lines (py_splitlines segment)"

text \<open>The outer loop: the first segment that has data lines and parses wins.\<close>

fun first_payload :: "pylib \<Rightarrow> pystr list \<Rightarrow> exn + json" where
  "first_payload lib [] = Inl (EntrezSDKError NoSSEPayload)"
| "first_payload lib (segment # rest) =
     (if data_lines segment = [] then first_payload lib rest
      else case loads lib (py_join [10] (data_lines segment)) of
             Some payload \<Rightarrow> Inr payload
           | None \<Rightarrow> first_payload lib rest)"

definition sse_segments :: "pystr \<Rightarrow> pystr list" where
  "sse_segments text =
     (let normalized = py_remove_char 13 text in
      map py_strip (filter (\<lambda>segment. py_strip segment \<noteq> []) (py_split [10, 10] normalized)))"

definition parse_sse_payload :: "pylib \<Rightarrow> pystr \<Rightarrow> exn + json" where
  "parse_sse_payload lib text = first_payload lib (sse_segments text)"

definition parse_response_text :: "pylib \<Rightarrow> pystr \<Rightarrow> exn + json" where
  "parse_response_text lib text =
     (let trimmed = py_strip text in
      if trimmed = [] then Inr (JDict [])
      else case loads lib trimmed of
             Some v \<Rightarrow> Inr v
           | None \<Rightarrow> parse_sse_payload lib trimmed)"

section \<open>Error sentinels and the result shape\<close>

text \<open>The marker is the one-character string U+274C.\<close>

definition error_marker :: pystr where
  "error_marker = [10060]"

text \<open>
  The condition both loops over \<^verbatim>\<open>content\<close> test: the block is a dict, its
  \<^verbatim>\<open>type\<close> is \<^verbatim>\<open>'text'\<close>, its \<^verbatim>\<open>text\<close> is a string, and the stripped text
  starts with the marker.
\<close>

definition is_sentinel_block :: "json \<Rightarrow> bool" where
  "is_sentinel_block block =
     (case block of
        JDict b \<Rightarrow>
          map_of b (py ''type'') = Some (JStr (py ''text'')) \<and>
          (case map_of b (py ''text'') of
             Some (JStr t) \<Rightarrow> py_startswith (py_strip t) error_marker
           | _ \<Rightarrow> False)
      | _ \<Rightarrow> False)"

text \<open>\<^verbatim>\<open>block['text'].strip()\<close> of a block; the empty string where there is no such text.\<close>

definition block_text :: "json \<Rightarrow> pystr" where
  "block_text block =
     (case block of
        JDict b \<Rightarrow> (case map_of b (py ''text'') of Some (JStr t) \<Rightarrow> py_strip t | _ \<Rightarrow> [])
      | _ \<Rightarrow> [])"

definition has_str_text :: "json \<Rightarrow> bool" where
  "has_str_text block =
     (case block of
        JDict b \<Rightarrow> (case map_of b (py ''text'') of Some (JStr t) \<Rightarrow> True | _ \<Rightarrow> False)
      | _ \<Rightarrow> False)"

definition is_error_payload :: "pydict \<Rightarrow> bool" where
  "is_error_payload payload =
     (case map_of payload (py ''content'') of
        Some (JList content) \<Rightarrow> list_ex is_sentinel_block content
      | _ \<Rightarrow> False)"

definition format_payload_error :: "pydict \<Rightarrow> pystr" where
  "format_payload_error payload =
     (case map_of payload (py ''content'') of
        Some (JList content) \<Rightarrow>
          (case find is_sentinel_block content of
             Some block \<Rightarrow> block_text block
           | None \<Rightarrow>
               (let combined =
                      py_strip (py_join (py '' '') (map block_text (filter has_str_text content)))
                in if combined \<noteq> [] then combined else py ''Unknown error''))
      | _ \<Rightarrow> py ''Unknown error'')"

text \<open>Lines 199 to 212 of \<^verbatim>\<open>_request_payload\<close>: the value returned on success.\<close>

definition normalize :: "json \<Rightarrow> json" where
  "normalize payload =
     (case payload of
        JDict p \<Rightarrow>
          (case map_of p (py ''structuredContent'') of
             None \<Rightarrow> payload
           | Some structured \<Rightarrow>
               (case map_of p (py ''content'') of
                  None \<Rightarrow> structured
                | Some content \<Rightarrow>
                    (case structured of
                       JDict n \<Rightarrow> JDict (AList.update (py ''content'') content n)
                     | _ \<Rightarrow> JDict [(py ''content'', content)])))
      | _ \<Rightarrow> payload)"

section \<open>The request pipeline\<close>

text \<open>
  Lines 190 to 192: \<^verbatim>\<open>if result and 'error' in result\<close>, then the message of the
  error object.  On a list \<^verbatim>\<open>in\<close> looks for an equal element and on a string for a
  substring, and the subscript \<^verbatim>\<open>result['error']\<close> then raises TypeError; on a
  number or \<^verbatim>\<open>True\<close> the test \<^verbatim>\<open>in\<close> itself raises TypeError; an error value
  that is not a dict has no \<^verbatim>\<open>get\<close>.
\<close>

definition rpc_error :: "pylib \<Rightarrow> pystr \<Rightarrow> json \<Rightarrow> exn option" where
  "rpc_error lib label result =
     (if \<not> truthy result then None
      else case result of
        JDict d \<Rightarrow>
          (case map_of d (py ''error'') of
             None \<Rightarrow> None
           | Some (JDict e) \<Rightarrow>
               (let error_msg = (case map_of e (py ''message'') of
                                   Some m \<Rightarrow> m
                                 | None \<Rightarrow> JStr (dumps lib (JDict e)))
                in Some (EntrezSDKError (MCPError label (str_of lib error_msg))))
           | Some _ \<Rightarrow> Some AttributeError)
      | JList xs \<Rightarrow> if JStr (py ''error'') \<in> set xs then Some TypeError else None
      | JStr s \<Rightarrow> if py_contains (py ''error'') s then Some TypeError else None
      | _ \<Rightarrow> Some TypeError)"

definition result_of :: "json \<Rightarrow> json" where
  "result_of result =
     (case result of
        JDict d \<Rightarrow> (case map_of d (py ''result'') of Some v \<Rightarrow> v | None \<Rightarrow> JNull)
      | _ \<Rightarrow> JNull)"

text \<open>
  \<^verbatim>\<open>_request_payload\<close> from the point where \<^verbatim>\<open>session.post\<close> has answered.  The
  result is the value returned or the exception raised, together with the client as the
  call leaves it.  Of the two handlers of the \<^verbatim>\<open>try\<close>, the one for
  \<^verbatim>\<open>aiohttp.ClientError\<close> gives the network error; the one for
  \<^verbatim>\<open>json.JSONDecodeError\<close> is never entered, since both calls of \<^verbatim>\<open>json.loads\<close>
  catch that exception where they are made.
\<close>

definition request_payload ::
  "pylib \<Rightarrow> entrez_sdk \<Rightarrow> pystr \<Rightarrow> exchange \<Rightarrow> (exn + json) \<times> entrez_sdk" where
  "request_payload lib self context ex =
     (let label = format_context context in
      case ex of
        PostFailed e \<Rightarrow> (Inl (EntrezSDKError (NetworkError label e)), self)
      | Response response \<Rightarrow>
          (let self' = extract_session_id self response in
           case body response of
             Inl e \<Rightarrow> (Inl (EntrezSDKError (NetworkError label e)), self')
           | Inr response_text \<Rightarrow>
               if status response \<ge> 400 then
                 (let message = (if response_text \<noteq> [] then response_text
                                 else case reason response of
                                        Some r \<Rightarrow> r
                                      | None \<Rightarrow> py ''None'')
                  in (Inl (EntrezSDKError (HTTPError label (status response) message)), self'))
               else
                 (case parse_response_text lib response_text of
                    Inl e \<Rightarrow> (Inl e, self')
                  | Inr result \<Rightarrow>
                      (case rpc_error lib label result of
                         Some e \<Rightarrow> (Inl e, self')
                       | None \<Rightarrow>
                           (let payload = result_of result in
                            case payload of
                              JDict p \<Rightarrow>
                                if p \<noteq> [] \<and> is_error_payload p
                                then (Inl (EntrezSDKError
                                             (PayloadError label (format_payload_error p))), self')
                                else (Inr (normalize payload), self')
                            | _ \<Rightarrow> (Inr (normalize payload), self'))))))"

text \<open>
  \<^verbatim>\<open>_call\<close>: the session is ensured first (\<^verbatim>\<open>_ensure_session\<close> runs the
  \<^verbatim>\<open>initialize\<close> exchange when no session id is held), then the parameters that
  are \<^verbatim>\<open>None\<close> are dropped and the tool call is sent.
\<close>

definition cleaned_params :: "pydict \<Rightarrow> pydict" where
  "cleaned_params params = filter (\<lambda>(k, v). v \<noteq> JNull) params"

definition call_params :: "pystr \<Rightarrow> pydict \<Rightarrow> json" where
  "call_params tool_name params =
     JDict [(py ''name'', JStr tool_name), (py ''arguments'', JDict (cleaned_params params))]"

definition initialize_params :: "entrez_sdk \<Rightarrow> json" where
  "initialize_params self =
     JDict [(py ''protocolVersion'', JStr (protocol_version self)),
            (py ''capabilities'', client_capabilities self),
            (py ''clientInfo'', client_info self)]"

definition ensure_session ::
  "pylib \<Rightarrow> entrez_sdk \<Rightarrow> exchange \<Rightarrow> (exn + unit) \<times> entrez_sdk" where
  "ensure_session lib self ex_init =
     (if has_session self then (Inr (), self)
      else case request_payload lib self (py ''initialize'') ex_init of
             (Inl e, self') \<Rightarrow> (Inl e, self')
           | (Inr _, self') \<Rightarrow> (Inr (), self'))"

definition call ::
  "pylib \<Rightarrow> entrez_sdk \<Rightarrow> pystr \<Rightarrow> pydict \<Rightarrow> exchange \<Rightarrow> exchange \<Rightarrow> (exn + json) \<times> entrez_sdk"
  where
  "call lib self tool_name params ex_init ex_call =
     (case ensure_session lib self ex_init of
        (Inl e, self') \<Rightarrow> (Inl e, self')
      | (Inr _, self') \<Rightarrow> request_payload lib self' tool_name ex_call)"

text \<open>The request \<^verbatim>\<open>_call\<close> posts for the tool, once the session is ensured.\<close>

definition call_request :: "entrez_sdk \<Rightarrow> int \<Rightarrow> pystr \<Rightarrow> pydict \<Rightarrow> http_request" where
  "call_request self now tool_name params =
     post_request self now (py ''tools/call'') (call_params tool_name params)"

section \<open>Notions used by the statements\<close>

text \<open>
  The session id a response supplies: the value of its \<^verbatim>\<open>mcp-session-id\<close> header,
  when there is one and it is not empty.
\<close>

definition supplied_session :: "response \<Rightarrow> pystr option" where
  "supplied_session r =
     (case headers_get (headers r) (py ''mcp-session-id'') of
        None \<Rightarrow> None
      | Some s \<Rightarrow> if s \<noteq> [] then Some s else None)"

text \<open>The id supplied most recently by a series of responses, the oldest first.\<close>

fun last_supplied :: "response list \<Rightarrow> pystr option" where
  "last_supplied [] = None"
| "last_supplied (r # rs) =
     (case last_supplied rs of Some s \<Rightarrow> Some s | None \<Rightarrow> supplied_session r)"

text \<open>The client after it has received a series of responses, the oldest first.\<close>

definition observe :: "entrez_sdk \<Rightarrow> response list \<Rightarrow> entrez_sdk" where
  "observe self rs = foldl extract_session_id self rs"


text \<open>The stream \<^verbatim>\<open>data: <line1>\ndata: <line2>\n\n\<close>.\<close>

definition sse_stream :: "pystr \<Rightarrow> pystr \<Rightarrow> pystr" where
  "sse_stream line1 line2 = py ''data: '' @ line1 @ [10] @ py ''data: '' @ line2 @ [10, 10]"





section \<open>Sample inputs\<close>

definition sample_response :: "int \<Rightarrow> (pystr \<times> pystr) list \<Rightarrow> pystr \<Rightarrow> response" where
  "sample_response code hs text =
     \<lparr> status = code, reason = Some (py ''Not Found''), headers = hs, body = Inr text \<rparr>"

text \<open>
  A stand-in for the JSON library that knows the documents of a table: it parses the
  texts listed there and serializes a value to the first text listed for it.
\<close>

definition sample_lib :: "(pystr \<times> json) list \<Rightarrow> pylib" where
  "sample_lib table =
     \<lparr> loads = map_of table,
       dumps = (\<lambda>v. case find (\<lambda>(s, w). w = v) table of Some (s, w) \<Rightarrow> s | None \<Rightarrow> []),
       str_of = (\<lambda>v. case v of JStr s \<Rightarrow> s | _ \<Rightarrow> []) \<rparr>"

definition sample_params :: pydict where
  "sample_params =
     [(py ''db'', JStr (py ''pubmed'')), (py ''retstart'', JNull),
      (py ''compact_mode'', JBool False), (py ''retmax'', JInt 0), (py ''sort'', JStr [])]"

definition sample_envelope :: "pydict \<Rightarrow> pydict" where
  "sample_envelope p =
     [(py ''jsonrpc'', JStr (py ''2.0'')), (py ''id'', JInt 1), (py ''result'', JDict p)]"

definition text_block :: "pystr \<Rightarrow> json" where
  "text_block t = JDict [(py ''type'', JStr (py ''text'')), (py ''text'', JStr t)]"

definition sample_error_text :: pystr where
  "sample_error_text = [32, 10060] @ py '' Invalid database: invalid_database ''"

definition sample_error_trimmed :: pystr where
  "sample_error_trimmed = [10060] @ py '' Invalid database: invalid_database''"

definition sample_error_result :: pydict where
  "sample_error_result =
     [(py ''content'', JList [text_block (py ''searching''), text_block sample_error_text])]"





text \<open>A JSON string literal without escapes.\<close>

definition quoted :: "pystr \<Rightarrow> pystr" where
  "quoted s = [34] @ s @ [34]"

text \<open>
  Two lines that join to a JSON text of an object whose one string holds the line
  separator U+2028, and that object.
\<close>

definition sample_line1 :: pystr where
  "sample_line1 = py ''{'' @ quoted (py ''a'') @ py '':''"

definition sample_line2 :: pystr where
  "sample_line2 = quoted (py ''x'' @ [8232] @ py ''y'') @ py ''}''"

definition sample_payload :: json where
  "sample_payload = JDict [(py ''a'', JStr (py ''x'' @ [8232] @ py ''y''))]"


definition sample_table :: "(pystr \<times> json) list" where
  "sample_table = [(py ''{}'', JDict []), (py ''{'' @ [10] @ py ''}'', JDict [])]"

section \<open>Session id and request headers\<close>

lemma supplied_session_sample:
  "supplied_session (sample_response code [(py ''Mcp-Session-Id'', sid)] text) =
     (if sid \<noteq> [] then Some sid else None)"
  by (simp add: supplied_session_def sample_response_def headers_get_def py_def py_lower_def
      lower_cp_def)

lemma supplied_session_nonempty: "supplied_session r = Some s \<Longrightarrow> s \<noteq> []"
  by (auto simp: supplied_session_def split: option.splits if_splits)

lemma extract_session_id_eq:
  "extract_session_id self r =
     self\<lparr>session_id :=
            (case supplied_session r of Some s \<Rightarrow> Some s | None \<Rightarrow> session_id self)\<rparr>"
  by (simp add: extract_session_id_def supplied_session_def split: option.splits)

lemma session_id_extract:
  "session_id (extract_session_id self r) =
     (case supplied_session r of Some s \<Rightarrow> Some s | None \<Rightarrow> session_id self)"
  by (simp add: extract_session_id_eq)

lemma protocol_version_extract:
  "protocol_version (extract_session_id self r) = protocol_version self"
  by (simp add: extract_session_id_eq)

lemma request_payload_state:
  "snd (request_payload lib self ctx (Response r)) = extract_session_id self r"
  by (simp add: request_payload_def Let_def split: sum.splits option.splits json.splits)

lemma session_id_observe:
  "session_id (observe self rs) =
     (case last_supplied rs of Some s \<Rightarrow> Some s | None \<Rightarrow> session_id self)"
  unfolding observe_def
proof (induction rs arbitrary: self)
  case Nil
  then show ?case by simp
next
  case (Cons r rs)
  show ?case
    by (simp add: Cons.IH session_id_extract split: option.splits)
qed

lemma protocol_version_observe: "protocol_version (observe self rs) = protocol_version self"
  unfolding observe_def
  by (induction rs arbitrary: self) (simp_all add: protocol_version_extract)

lemma last_supplied_nonempty: "last_supplied rs = Some s \<Longrightarrow> s \<noteq> []"
  by (induction rs) (auto simp: supplied_session_nonempty split: option.splits)

lemma build_headers_fixed:
  "map_of (build_headers self) (py ''Content-Type'') = Some (py ''application/json'')"
  "map_of (build_headers self) (py ''Accept'') = Some (py ''application/json, text/event-stream'')"
  "map_of (build_headers self) (py ''MCP-Protocol-Version'') = Some (protocol_version self)"
  by (simp_all add: build_headers_def Let_def py_def update_conv' split: option.splits)

lemma build_headers_session:
  "map_of (build_headers self) (py ''Mcp-Session-Id'') =
     (if has_session self then session_id self else None)"
  by (simp add: build_headers_def Let_def has_session_def py_def update_conv'
      split: option.splits)

text \<open>
  C7, as stated, fails: a client that holds the session id \<^verbatim>\<open>a\<close> and then receives a
  response whose session header is \<^verbatim>\<open>b\<close> holds \<^verbatim>\<open>b\<close> afterwards.
\<close>

theorem session_id_replaced_by_later_response:
  "session_id (observe (init (py ''http://localhost:8787''))
                 [sample_response 200 [(py ''Mcp-Session-Id'', py ''a'')] (py ''{}'')])
     = Some (py ''a'')
   \<and> session_id (observe (init (py ''http://localhost:8787''))
                   [sample_response 200 [(py ''Mcp-Session-Id'', py ''a'')] (py ''{}''),
                    sample_response 200 [(py ''Mcp-Session-Id'', py ''b'')] (py ''{}'')])
     = Some (py ''b'')
   \<and> py ''b'' \<noteq> py ''a''"
  by (simp add: session_id_observe supplied_session_sample init_def) (simp add: py_def)

text \<open>
  C7, amended: the session id is absent at construction; the only thing that writes it is
  the inspection of a response's headers, which \<^verbatim>\<open>_request_payload\<close> performs on
  every response it receives; a response that supplies a (non-empty) session id sets the
  field to that id, whether or not one is already held, and any other response leaves the
  client as it is.  So the id held after a series of responses is the one supplied most
  recently, if any.
\<close>

theorem session_id_lifecycle:
  "session_id (init u) = None
   \<and> snd (request_payload lib self ctx (PostFailed e)) = self
   \<and> snd (request_payload lib self ctx (Response r)) = extract_session_id self r
   \<and> extract_session_id self r =
       self\<lparr>session_id :=
              (case supplied_session r of Some s \<Rightarrow> Some s | None \<Rightarrow> session_id self)\<rparr>
   \<and> session_id (observe (init u) rs) = last_supplied rs"
proof -
  have "session_id (init u) = None"
    by (simp add: init_def)
  moreover have "snd (request_payload lib self ctx (PostFailed e)) = self"
    by (simp add: request_payload_def)
  moreover have "session_id (observe (init u) rs) = last_supplied rs"
    by (simp add: session_id_observe init_def split: option.splits)
  ultimately show ?thesis
    using request_payload_state extract_session_id_eq by simp
qed

text \<open>
  C8, as stated, fails: after the responses that supply \<^verbatim>\<open>a\<close> and then \<^verbatim>\<open>b\<close>, the
  session header of the next request is \<^verbatim>\<open>b\<close>, not the \<^verbatim>\<open>a\<close> supplied first.
\<close>

theorem session_header_follows_latest_id:
  "map_of (build_headers (observe (init (py ''http://localhost:8787''))
                   [sample_response 200 [(py ''Mcp-Session-Id'', py ''a'')] (py ''{}''),
                    sample_response 200 [(py ''Mcp-Session-Id'', py ''b'')] (py ''{}'')]))
          (py ''Mcp-Session-Id'') = Some (py ''b'')
   \<and> Some (py ''b'') \<noteq> Some (py ''a'')"
  by (simp add: build_headers_session has_session_def session_id_observe supplied_session_sample
      init_def) (simp add: py_def)

text \<open>
  C8, amended: for a client that has received any series of responses since its
  construction, the headers of the next request hold \<^verbatim>\<open>Content-Type: application/json\<close>,
  \<^verbatim>\<open>Accept: application/json, text/event-stream\<close>, the protocol version
  \<^verbatim>\<open>2025-11-25\<close>, and under \<^verbatim>\<open>Mcp-Session-Id\<close> the session id supplied most
  recently by those responses (no such header when none supplied one); a newly
  constructed client holds no session id and sends no session header.
\<close>

theorem request_headers_after_responses:
  "map_of (build_headers (observe (init u) rs)) (py ''Content-Type'')
     = Some (py ''application/json'')
   \<and> map_of (build_headers (observe (init u) rs)) (py ''Accept'')
       = Some (py ''application/json, text/event-stream'')
   \<and> map_of (build_headers (observe (init u) rs)) (py ''MCP-Protocol-Version'')
       = Some (py ''2025-11-25'')
   \<and> map_of (build_headers (observe (init u) rs)) (py ''Mcp-Session-Id'') = last_supplied rs
   \<and> request_headers (post_request (observe (init u) rs) now method params)
       = build_headers (observe (init u) rs)
   \<and> session_id (init u') = None
   \<and> map_of (build_headers (init u')) (py ''Mcp-Session-Id'') = None"
proof -
  have pv: "protocol_version (observe (init u) rs) = py ''2025-11-25''"
    by (simp add: protocol_version_observe init_def)
  have sid: "session_id (observe (init u) rs) = last_supplied rs"
    by (simp add: session_id_observe init_def split: option.splits)
  have "map_of (build_headers (observe (init u) rs)) (py ''Mcp-Session-Id'') = last_supplied rs"
    using last_supplied_nonempty [of rs]
    by (cases "last_supplied rs") (simp_all add: build_headers_session has_session_def sid)
  moreover have "session_id (init u') = None"
    by (simp add: init_def)
  moreover have "map_of (build_headers (init u')) (py ''Mcp-Session-Id'') = None"
    by (simp add: build_headers_session has_session_def init_def)
  ultimately show ?thesis
    by (simp add: build_headers_fixed pv post_request_def)
qed

text \<open>
  C9: the headers of a response are inspected before its status is tested.  A response
  with status 400 or more whose headers supply a session id makes the call fail with the
  HTTP-status error and leaves the client holding that id, and the next request the client
  builds carries it in its session header.
\<close>

theorem failed_request_stores_session_id:
  assumes "status r \<ge> 400" and "body r = Inr text" and "supplied_session r = Some s"
  shows "fst (request_payload lib self ctx (Response r)) =
           Inl (EntrezSDKError (HTTPError (format_context ctx) (status r)
                  (if text \<noteq> [] then text
                   else case reason r of Some x \<Rightarrow> x | None \<Rightarrow> py ''None'')))
         \<and> session_id (snd (request_payload lib self ctx (Response r))) = Some s
         \<and> map_of (request_headers
                     (post_request (snd (request_payload lib self ctx (Response r)))
                        now method params))
                  (py ''Mcp-Session-Id'') = Some s"
proof -
  have "fst (request_payload lib self ctx (Response r)) =
           Inl (EntrezSDKError (HTTPError (format_context ctx) (status r)
                  (if text \<noteq> [] then text
                   else case reason r of Some x \<Rightarrow> x | None \<Rightarrow> py ''None'')))"
    using assms(1,2) by (simp add: request_payload_def Let_def)
  moreover have sid: "session_id (snd (request_payload lib self ctx (Response r))) = Some s"
    using assms(3) by (simp add: request_payload_state session_id_extract)
  moreover have "map_of (request_headers
                     (post_request (snd (request_payload lib self ctx (Response r)))
                        now method params))
                  (py ''Mcp-Session-Id'') = Some s"
    using sid supplied_session_nonempty [OF assms(3)]
    by (simp add: post_request_def build_headers_session has_session_def)
  ultimately show ?thesis by simp
qed

lemma format_context_sample: "format_context (py ''entrez_query'') = py ''[entrez_query]''"
  by (simp add: format_context_def py_strip_def py_lstrip_def py_rstrip_def py_startswith_def
      py_endswith_def py_def is_space_def Let_def)

theorem failed_request_stores_session_id_witness:
  "status (sample_response 404 [(py ''Mcp-Session-Id'', py ''a'')] (py ''gone'')) \<ge> 400
   \<and> body (sample_response 404 [(py ''Mcp-Session-Id'', py ''a'')] (py ''gone''))
       = Inr (py ''gone'')
   \<and> supplied_session (sample_response 404 [(py ''Mcp-Session-Id'', py ''a'')] (py ''gone''))
       = Some (py ''a'')
   \<and> fst (request_payload (sample_lib []) (init (py ''http://localhost:8787''))
             (py ''entrez_query'')
             (Response (sample_response 404 [(py ''Mcp-Session-Id'', py ''a'')] (py ''gone''))))
       = Inl (EntrezSDKError (HTTPError (py ''[entrez_query]'') 404 (py ''gone'')))
   \<and> session_id (snd (request_payload (sample_lib []) (init (py ''http://localhost:8787''))
             (py ''entrez_query'')
             (Response (sample_response 404 [(py ''Mcp-Session-Id'', py ''a'')] (py ''gone'')))))
       = Some (py ''a'')
   \<and> map_of (request_headers (post_request
          (snd (request_payload (sample_lib []) (init (py ''http://localhost:8787''))
             (py ''entrez_query'')
             (Response (sample_response 404 [(py ''Mcp-Session-Id'', py ''a'')] (py ''gone'')))))
          1 (py ''tools/call'') (JDict []))) (py ''Mcp-Session-Id'') = Some (py ''a'')"
proof -
  have h1: "status (sample_response 404 [(py ''Mcp-Session-Id'', py ''a'')] (py ''gone'')) \<ge> 400"
    by (simp add: sample_response_def)
  have h2: "body (sample_response 404 [(py ''Mcp-Session-Id'', py ''a'')] (py ''gone''))
              = Inr (py ''gone'')"
    by (simp add: sample_response_def)
  have h3: "supplied_session (sample_response 404 [(py ''Mcp-Session-Id'', py ''a'')] (py ''gone''))
              = Some (py ''a'')"
    by (simp add: supplied_session_sample) (simp add: py_def)
  have ne: "py ''gone'' \<noteq> []"
    by (simp add: py_def)
  have st: "status (sample_response 404 [(py ''Mcp-Session-Id'', py ''a'')] (py ''gone'')) = 404"
    by (simp add: sample_response_def)
  show ?thesis
    using failed_request_stores_session_id [OF h1 h2 h3, of "sample_lib []"
        "init (py ''http://localhost:8787'')" "py ''entrez_query''" 1 "py ''tools/call''" "JDict []"]
      h1 h2 h3
    by (simp add: format_context_sample ne st)
qed

section \<open>The HTTP status check\<close>

text \<open>
  C3: a response with status 400 or more, whatever its body text, makes the call fail with
  the HTTP-status error, which carries the bracketed label, the status code and the raw
  body text, or the reason when the body is empty.  The JSON library does not occur in the
  result: the body is not parsed.  The message of the error reads
  \<^verbatim>\<open>[label] HTTP <status>: <body or reason>\<close>.
\<close>

theorem http_status_error_short_circuits:
  assumes "status r \<ge> 400" and "body r = Inr text"
  shows "fst (request_payload lib self ctx (Response r)) =
           Inl (EntrezSDKError (HTTPError (format_context ctx) (status r)
                  (if text \<noteq> [] then text
                   else case reason r of Some x \<Rightarrow> x | None \<Rightarrow> py ''None'')))
         \<and> error_text (HTTPError (format_context ctx) (status r)
                  (if text \<noteq> [] then text
                   else case reason r of Some x \<Rightarrow> x | None \<Rightarrow> py ''None'')) =
             format_context ctx @ py '' HTTP '' @ str_int (status r) @ py '': '' @
               (if text \<noteq> [] then text
                else case reason r of Some x \<Rightarrow> x | None \<Rightarrow> py ''None'')"
  using assms by (simp add: request_payload_def Let_def)

theorem http_status_error_short_circuits_witness:
  "status (sample_response 404 [] []) \<ge> 400
   \<and> body (sample_response 404 [] []) = Inr []
   \<and> fst (request_payload (sample_lib [([], JDict [])]) (init (py ''http://localhost:8787''))
             (py ''entrez_query'') (Response (sample_response 404 [] [])))
       = Inl (EntrezSDKError (HTTPError (py ''[entrez_query]'') 404 (py ''Not Found'')))
   \<and> error_text (HTTPError (py ''[entrez_query]'') 404 (py ''Not Found''))
       = py ''[entrez_query] HTTP 404: Not Found''"
proof -
  have h1: "status (sample_response 404 [] []) \<ge> 400"
    by (simp add: sample_response_def)
  have h2: "body (sample_response 404 [] []) = Inr []"
    by (simp add: sample_response_def)
  have st: "status (sample_response 404 [] []) = 404"
    "reason (sample_response 404 [] []) = Some (py ''Not Found'')"
    by (simp_all add: sample_response_def)
  have tx: "error_text (HTTPError (py ''[entrez_query]'') 404 (py ''Not Found''))
       = py ''[entrez_query] HTTP 404: Not Found''"
    by (simp add: str_int_def str_nat.simps py_def)
  show ?thesis
    using http_status_error_short_circuits [OF h1 h2, of "sample_lib [([], JDict [])]"
        "init (py ''http://localhost:8787'')" "py ''entrez_query''"] h1 h2 tx
    by (simp add: format_context_sample st)
qed

section \<open>Parameters of a tool call\<close>

lemma map_of_filter_not_None:
  "distinct (map fst ps) \<Longrightarrow>
   map_of (filter (\<lambda>(k, v). v \<noteq> JNull) ps) k =
     (if map_of ps k = Some JNull then None else map_of ps k)"
proof (induction ps)
  case Nil
  then show ?case by simp
next
  case (Cons p ps)
  obtain a b where p: "p = (a, b)" by (cases p)
  show ?case using Cons p
    by (auto simp: map_of_eq_None_iff image_iff dest: map_of_SomeD)
qed

text \<open>
  C6: the request \<^verbatim>\<open>_call\<close> posts carries, under \<^verbatim>\<open>params.arguments\<close>, the
  parameter mapping without the keys whose value is \<^verbatim>\<open>None\<close>: such a key is absent,
  and every other key keeps its value, whatever it is (\<^verbatim>\<open>False\<close>, \<^verbatim>\<open>0\<close> and the
  empty string included).  The keys of a mapping are distinct.
\<close>

theorem call_omits_exactly_none_params:
  assumes "distinct (map fst params)"
  shows "request_json (call_request self now tool_name params) =
           JDict [(py ''jsonrpc'', JStr (py ''2.0'')), (py ''id'', JInt now),
                  (py ''method'', JStr (py ''tools/call'')),
                  (py ''params'', JDict [(py ''name'', JStr tool_name),
                                         (py ''arguments'', JDict (cleaned_params params))])]
         \<and> map_of (cleaned_params params) k =
             (if map_of params k = Some JNull then None else map_of params k)"
  using map_of_filter_not_None [OF assms]
  by (simp add: call_request_def post_request_def call_params_def cleaned_params_def)

theorem call_omits_exactly_none_params_witness:
  "distinct (map fst sample_params)
   \<and> cleaned_params sample_params =
       [(py ''db'', JStr (py ''pubmed'')), (py ''compact_mode'', JBool False),
        (py ''retmax'', JInt 0), (py ''sort'', JStr [])]
   \<and> map_of (cleaned_params sample_params) (py ''retstart'') = None
   \<and> map_of (cleaned_params sample_params) (py ''compact_mode'') = Some (JBool False)"
proof -
  have d: "distinct (map fst sample_params)"
    by (simp add: sample_params_def py_def)
  have c: "cleaned_params sample_params =
       [(py ''db'', JStr (py ''pubmed'')), (py ''compact_mode'', JBool False),
        (py ''retmax'', JInt 0), (py ''sort'', JStr [])]"
    by (simp add: cleaned_params_def sample_params_def)
  have m: "map_of sample_params (py ''retstart'') = Some JNull"
    "map_of sample_params (py ''compact_mode'') = Some (JBool False)"
    by (simp_all add: sample_params_def py_def)
  show ?thesis
    using call_omits_exactly_none_params [OF d, of "init []" 1 "py ''entrez_query''"
        "py ''retstart''"]
      call_omits_exactly_none_params [OF d, of "init []" 1 "py ''entrez_query''"
        "py ''compact_mode''"] d c
    by (simp add: m)
qed

section \<open>Error sentinels and normalization\<close>

lemma find_sentinel_block:
  assumes "find is_sentinel_block content = Some block"
  shows "\<exists>b t. block = JDict b \<and> map_of b (py ''type'') = Some (JStr (py ''text''))
           \<and> map_of b (py ''text'') = Some (JStr t)
           \<and> py_startswith (py_strip t) error_marker \<and> block_text block = py_strip t"
proof -
  from assms have "is_sentinel_block block"
    by (auto simp: find_Some_iff)
  then show ?thesis
    by (auto simp: is_sentinel_block_def block_text_def split: json.splits option.splits)
qed

lemma list_ex_find: "list_ex P xs \<Longrightarrow> \<exists>x. find P xs = Some x \<and> x \<in> set xs \<and> P x"
  by (induction xs) auto

lemma format_payload_error_sentinel:
  assumes "map_of p (py ''content'') = Some (JList content)"
    and "find is_sentinel_block content = Some block"
  shows "format_payload_error p = block_text block"
  using assms by (simp add: format_payload_error_def)

lemma marker_not_unknown: "py_startswith s error_marker \<Longrightarrow> s \<noteq> py ''Unknown error''"
  by (auto simp: py_startswith_def error_marker_def py_def)

lemma request_payload_decoded:
  assumes "status r < 400" and "body r = Inr text"
    and "parse_response_text lib text = Inr (JDict env)"
    and "map_of env (py ''error'') = None"
    and "map_of env (py ''result'') = Some (JDict p)"
  shows "fst (request_payload lib self ctx (Response r)) =
           (if is_error_payload p
            then Inl (EntrezSDKError (PayloadError (format_context ctx) (format_payload_error p)))
            else Inr (normalize (JDict p)))"
proof -
  have "rpc_error lib (format_context ctx) (JDict env) = None"
    using assms(4) by (simp add: rpc_error_def)
  moreover have "result_of (JDict env) = JDict p"
    using assms(5) by (simp add: result_of_def)
  moreover have "\<not> is_error_payload []"
    by (simp add: is_error_payload_def)
  ultimately show ?thesis
    using assms(1,2,3) by (auto simp: request_payload_def Let_def)
qed

text \<open>
  C1, amended: a response with a status below 400 (every 2xx response among them) whose
  decoded envelope is an object without an \<^verbatim>\<open>error\<close> field and whose \<^verbatim>\<open>result\<close> is
  an object with a \<^verbatim>\<open>content\<close> list that holds a sentinel text block makes the call
  fail with the application-level error.  The error is made from the bracketed label and
  the stripped text of the first sentinel block of the list, and its message is the label,
  a space, and that text.  With a sentinel block in the list the first loop of the
  formatter returns, so neither the joined texts nor \<^verbatim>\<open>'Unknown error'\<close> arises here.
\<close>

theorem sentinel_block_fails_call:
  assumes "status r < 400" and "body r = Inr text"
    and "parse_response_text lib text = Inr (JDict env)"
    and "map_of env (py ''error'') = None"
    and "map_of env (py ''result'') = Some (JDict p)"
    and "map_of p (py ''content'') = Some (JList content)"
    and "list_ex is_sentinel_block content"
  shows "\<exists>b t. find is_sentinel_block content = Some (JDict b)
           \<and> map_of b (py ''text'') = Some (JStr t)
           \<and> fst (request_payload lib self ctx (Response r)) =
               Inl (EntrezSDKError (PayloadError (format_context ctx) (py_strip t)))
           \<and> error_text (PayloadError (format_context ctx) (py_strip t)) =
               format_context ctx @ py '' '' @ py_strip t"
proof -
  from list_ex_find [OF assms(7)] obtain block where
    f: "find is_sentinel_block content = Some block" by blast
  from find_sentinel_block [OF f] obtain b t where
    b: "block = JDict b" "map_of b (py ''text'') = Some (JStr t)" "block_text block = py_strip t"
    by blast
  have "is_error_payload p"
    using assms(6,7) by (simp add: is_error_payload_def)
  then have "fst (request_payload lib self ctx (Response r)) =
      Inl (EntrezSDKError (PayloadError (format_context ctx) (format_payload_error p)))"
    using request_payload_decoded [OF assms(1-5)] by simp
  then show ?thesis
    using f b format_payload_error_sentinel [OF assms(6) f] by simp
qed

lemma request_payload_PayloadError:
  assumes "fst (request_payload lib self ctx ex) = Inl (EntrezSDKError (PayloadError l m))"
  shows "\<exists>p. is_error_payload p \<and> m = format_payload_error p \<and> l = format_context ctx"
proof -
  have a: "parse_response_text lib s \<noteq> Inl (EntrezSDKError (PayloadError l m))" for s
  proof -
    have "first_payload lib segs \<noteq> Inl (EntrezSDKError (PayloadError l m))" for segs
      by (induction segs) (auto split: option.splits)
    then show ?thesis
      by (auto simp: parse_response_text_def parse_sse_payload_def Let_def split: option.splits)
  qed
  have b: "rpc_error lib lab v \<noteq> Some (EntrezSDKError (PayloadError l m))" for lab v
    by (auto simp: rpc_error_def Let_def split: json.splits option.splits if_splits)
  show ?thesis
    using assms a b
    by (auto simp: request_payload_def Let_def
        split: exchange.splits sum.splits if_splits option.splits json.splits)
qed

text \<open>
  C10: when the sentinel check succeeds on a payload, its \<^verbatim>\<open>content\<close> is a list, the
  formatter's first loop finds a sentinel block and the formatter returns the stripped
  text of that block (the first one): a text that starts with the marker, hence neither the
  fallback join of a list without sentinel nor \<^verbatim>\<open>'Unknown error'\<close>.  And whenever
  the request pipeline fails with the payload error, the message comes from the formatter
  applied to a payload on which the sentinel check succeeds.
\<close>

theorem formatter_fallbacks_unreachable:
  "(is_error_payload p \<longrightarrow>
      (\<exists>content b t. map_of p (py ''content'') = Some (JList content)
         \<and> find is_sentinel_block content = Some (JDict b)
         \<and> JDict b \<in> set content \<and> is_sentinel_block (JDict b)
         \<and> map_of b (py ''text'') = Some (JStr t)
         \<and> format_payload_error p = py_strip t
         \<and> py_startswith (format_payload_error p) error_marker
         \<and> format_payload_error p \<noteq> py ''Unknown error''))
   \<and> (fst (request_payload lib self ctx ex) = Inl (EntrezSDKError (PayloadError l m)) \<longrightarrow>
        (\<exists>q. is_error_payload q \<and> m = format_payload_error q))"
proof (intro conjI impI)
  assume e: "is_error_payload p"
  then obtain content where c: "map_of p (py ''content'') = Some (JList content)"
    and l: "list_ex is_sentinel_block content"
    by (auto simp: is_error_payload_def split: option.splits json.splits)
  from list_ex_find [OF l] obtain block where
    f: "find is_sentinel_block content = Some block" "block \<in> set content"
      "is_sentinel_block block" by blast
  from find_sentinel_block [OF f(1)] obtain b t where
    b: "block = JDict b" "map_of b (py ''text'') = Some (JStr t)"
      "py_startswith (py_strip t) error_marker" "block_text block = py_strip t"
    by blast
  have m: "format_payload_error p = py_strip t"
    using format_payload_error_sentinel [OF c f(1)] b(4) by simp
  show "\<exists>content b t. map_of p (py ''content'') = Some (JList content)
         \<and> find is_sentinel_block content = Some (JDict b)
         \<and> JDict b \<in> set content \<and> is_sentinel_block (JDict b)
         \<and> map_of b (py ''text'') = Some (JStr t)
         \<and> format_payload_error p = py_strip t
         \<and> py_startswith (format_payload_error p) error_marker
         \<and> format_payload_error p \<noteq> py ''Unknown error''"
    using c f b m marker_not_unknown [OF b(3)] by auto
next
  assume "fst (request_payload lib self ctx ex) = Inl (EntrezSDKError (PayloadError l m))"
  from request_payload_PayloadError [OF this]
  show "\<exists>q. is_error_payload q \<and> m = format_payload_error q" by blast
qed


lemma strip_BODY: "py_strip (py ''BODY'') = py ''BODY''" "py ''BODY'' \<noteq> []"
  by (simp_all add: py_strip_def py_lstrip_def py_rstrip_def py_def is_space_def)

lemma sample_decode:
  "parse_response_text (sample_lib [(py ''BODY'', JDict (sample_envelope p))]) (py ''BODY'')
     = Inr (JDict (sample_envelope p))"
  by (simp add: parse_response_text_def strip_BODY sample_lib_def)

lemma sample_envelope_fields:
  "map_of (sample_envelope p) (py ''error'') = None"
  "map_of (sample_envelope p) (py ''result'') = Some (JDict p)"
  by (simp_all add: sample_envelope_def py_def)

lemma sample_response_fields:
  "status (sample_response 200 [] (py ''BODY'')) < 400"
  "body (sample_response 200 [] (py ''BODY'')) = Inr (py ''BODY'')"
  by (simp_all add: sample_response_def)

lemma sentinel_text_block:
  "is_sentinel_block (text_block t) = py_startswith (py_strip t) error_marker"
  by (simp add: is_sentinel_block_def text_block_def py_def)

lemma strip_samples:
  "py_strip (py ''searching'') = py ''searching''"
  "py_strip (py ''done'') = py ''done''"
  "py_strip sample_error_text = sample_error_trimmed"
  by (simp_all add: py_strip_def py_lstrip_def py_rstrip_def py_def is_space_def
      sample_error_text_def sample_error_trimmed_def)

lemma sample_error_content:
  "map_of sample_error_result (py ''content'') =
     Some (JList [text_block (py ''searching''), text_block sample_error_text])"
  by (simp add: sample_error_result_def)

lemma sample_error_sentinels:
  "\<not> is_sentinel_block (text_block (py ''searching''))"
  "is_sentinel_block (text_block sample_error_text)"
  unfolding sentinel_text_block strip_samples
  by (simp_all add: py_startswith_def error_marker_def py_def sample_error_trimmed_def)

lemma block_text_text_block: "block_text (text_block t) = py_strip t"
  by (simp add: block_text_def text_block_def py_def)

lemma text_block_text:
  "text_block s = JDict b \<Longrightarrow> map_of b (py ''text'') = Some (JStr t) \<Longrightarrow> t = s"
  by (auto simp: text_block_def py_def)

lemma sample_error_call:
  "fst (request_payload (sample_lib [(py ''BODY'', JDict (sample_envelope sample_error_result))])
          (init (py ''http://localhost:8787'')) (py ''entrez_query'')
          (Response (sample_response 200 [] (py ''BODY''))))
     = Inl (EntrezSDKError (PayloadError (py ''[entrez_query]'') sample_error_trimmed))"
proof -
  have e: "is_error_payload sample_error_result"
    using sample_error_sentinels by (simp add: is_error_payload_def sample_error_content)
  have fnd: "find is_sentinel_block [text_block (py ''searching''), text_block sample_error_text]
      = Some (text_block sample_error_text)"
    using sample_error_sentinels by simp
  have f: "format_payload_error sample_error_result = sample_error_trimmed"
    using format_payload_error_sentinel [OF sample_error_content fnd]
    by (simp add: block_text_text_block strip_samples)
  show ?thesis
    using request_payload_decoded [OF sample_response_fields sample_decode
        sample_envelope_fields, of sample_error_result "init (py ''http://localhost:8787'')"
        "py ''entrez_query''"] e f
    by (simp add: format_context_sample)
qed

text \<open>
  C1, as stated, fails: the message of the error is not the stripped text of the sentinel
  block alone.  For the sample result the call \<^verbatim>\<open>entrez_query\<close> fails with the message
  \<^verbatim>\<open>[entrez_query]\<close>, a space, and the stripped text.
\<close>

theorem payload_error_message_carries_label:
  "fst (request_payload (sample_lib [(py ''BODY'', JDict (sample_envelope sample_error_result))])
          (init (py ''http://localhost:8787'')) (py ''entrez_query'')
          (Response (sample_response 200 [] (py ''BODY''))))
     = Inl (EntrezSDKError (PayloadError (py ''[entrez_query]'') sample_error_trimmed))
   \<and> error_text (PayloadError (py ''[entrez_query]'') sample_error_trimmed)
       = py ''[entrez_query] '' @ sample_error_trimmed
   \<and> error_text (PayloadError (py ''[entrez_query]'') sample_error_trimmed)
       \<noteq> sample_error_trimmed"
  using sample_error_call by (simp add: py_def sample_error_trimmed_def)

theorem sentinel_block_fails_call_witness:
  "status (sample_response 200 [] (py ''BODY'')) < 400
   \<and> list_ex is_sentinel_block [text_block (py ''searching''), text_block sample_error_text]
   \<and> fst (request_payload (sample_lib [(py ''BODY'', JDict (sample_envelope sample_error_result))])
            (init (py ''http://localhost:8787'')) (py ''entrez_query'')
            (Response (sample_response 200 [] (py ''BODY''))))
      = Inl (EntrezSDKError (PayloadError (py ''[entrez_query]'') sample_error_trimmed))"
proof -
  have ex: "list_ex is_sentinel_block [text_block (py ''searching''), text_block sample_error_text]"
    using sample_error_sentinels by simp
  have fnd: "find is_sentinel_block [text_block (py ''searching''), text_block sample_error_text]
      = Some (text_block sample_error_text)"
    using sample_error_sentinels by simp
  from sentinel_block_fails_call [OF sample_response_fields sample_decode sample_envelope_fields
        sample_error_content ex, of "init (py ''http://localhost:8787'')" "py ''entrez_query''"]
  obtain b t where
    A: "find is_sentinel_block [text_block (py ''searching''), text_block sample_error_text]
          = Some (JDict b)"
      "map_of b (py ''text'') = Some (JStr t)"
      "fst (request_payload (sample_lib [(py ''BODY'', JDict (sample_envelope sample_error_result))])
            (init (py ''http://localhost:8787'')) (py ''entrez_query'')
            (Response (sample_response 200 [] (py ''BODY''))))
        = Inl (EntrezSDKError (PayloadError (format_context (py ''entrez_query'')) (py_strip t)))"
    by blast
  from A(1) fnd have "text_block sample_error_text = JDict b" by simp
  then have "t = sample_error_text" using A(2) by (rule text_block_text)
  then show ?thesis
    using A(3) sample_response_fields(1) ex
    by (simp add: format_context_sample strip_samples)
qed








theorem formatter_fallbacks_unreachable_witness:
  "is_error_payload sample_error_result
   \<and> format_payload_error sample_error_result = sample_error_trimmed
   \<and> fst (request_payload (sample_lib [(py ''BODY'', JDict (sample_envelope sample_error_result))])
            (init (py ''http://localhost:8787'')) (py ''entrez_query'')
            (Response (sample_response 200 [] (py ''BODY''))))
      = Inl (EntrezSDKError (PayloadError (py ''[entrez_query]'') sample_error_trimmed))
   \<and> (\<exists>q. is_error_payload q \<and> sample_error_trimmed = format_payload_error q)"
proof -
  have e: "is_error_payload sample_error_result"
    using sample_error_sentinels by (simp add: is_error_payload_def sample_error_content)
  have fnd: "find is_sentinel_block [text_block (py ''searching''), text_block sample_error_text]
      = Some (text_block sample_error_text)"
    using sample_error_sentinels by simp
  have f: "format_payload_error sample_error_result = sample_error_trimmed"
    using format_payload_error_sentinel [OF sample_error_content fnd]
    by (simp add: block_text_text_block strip_samples)
  have r: "fst (request_payload
            (sample_lib [(py ''BODY'', JDict (sample_envelope sample_error_result))])
            (init (py ''http://localhost:8787'')) (py ''entrez_query'')
            (Response (sample_response 200 [] (py ''BODY''))))
      = Inl (EntrezSDKError (PayloadError (py ''[entrez_query]'') sample_error_trimmed))"
    using request_payload_decoded [OF sample_response_fields sample_decode
        sample_envelope_fields, of sample_error_result "init (py ''http://localhost:8787'')"
        "py ''entrez_query''"] e f
    by (simp add: format_context_sample)
  show ?thesis
    using formatter_fallbacks_unreachable [of sample_error_result
        "sample_lib [(py ''BODY'', JDict (sample_envelope sample_error_result))]"
        "init (py ''http://localhost:8787'')" "py ''entrez_query''"
        "Response (sample_response 200 [] (py ''BODY''))" "py ''[entrez_query]''"
        sample_error_trimmed] e f r
    by simp
qed

section \<open>Decoding: strings\<close>

lemma rstrip_append_nonspace:
  "\<not> is_space x \<Longrightarrow> py_rstrip (u @ x # b) = u @ x # py_rstrip b"
  by (simp add: py_rstrip_def dropWhile_append)

lemma rstrip_append_space: "\<forall>c\<in>set b. is_space c \<Longrightarrow> py_rstrip (a @ b) = py_rstrip a"
  by (simp add: py_rstrip_def dropWhile_append)

lemma lstrip_rstrip_commute: "py_lstrip (py_rstrip s) = py_rstrip (py_lstrip s)"
proof (cases "\<forall>c\<in>set s. is_space c")
  case True
  then have e: "dropWhile is_space s = []" "dropWhile is_space (rev s) = []"
    by simp_all
  show ?thesis
    unfolding py_rstrip_def py_lstrip_def e by simp
next
  case False
  then have "\<exists>x\<in>set s. \<not> is_space x"
    by simp
  from split_list_first_prop [OF this]
  obtain a x b where s: "s = a @ x # b" "\<forall>c\<in>set a. is_space c" "\<not> is_space x"
    by auto
  have "py_lstrip s = x # b"
    using s by (simp add: py_lstrip_def dropWhile_append)
  moreover have "py_lstrip (py_rstrip s) = x # py_rstrip b"
    using s by (simp add: rstrip_append_nonspace) (simp add: py_lstrip_def dropWhile_append)
  ultimately show ?thesis
    using s(3) rstrip_append_nonspace [of x "[]" b] by simp
qed

lemma set_rstrip: "set (py_rstrip s) \<subseteq> set s"
  unfolding py_rstrip_def by (metis set_dropWhileD set_rev subsetI)

lemma strip_idem: "py_strip (py_strip s) = py_strip s"
proof -
  have l: "py_lstrip (py_lstrip t) = py_lstrip t" for t
    by (simp add: py_lstrip_def)
  have r: "py_rstrip (py_rstrip t) = py_rstrip t" for t
    by (simp add: py_rstrip_def)
  show ?thesis
    by (simp add: py_strip_def lstrip_rstrip_commute l r)
qed

lemma split_from_no_newline:
  "10 \<notin> set s \<Longrightarrow> split_from [10, 10] cur s = [cur @ s]"
proof (induction s arbitrary: cur)
  case Nil
  then show ?case by (simp add: split_from.simps)
next
  case (Cons c s)
  then show ?case
    by (subst split_from.simps) simp
qed

lemma split_from_one_newline:
  "10 \<notin> set a \<Longrightarrow> 10 \<notin> set b \<Longrightarrow> split_from [10, 10] cur (a @ 10 # b) = [cur @ a @ 10 # b]"
proof (induction a arbitrary: cur)
  case Nil
  have "\<not> prefix [10, 10] (10 # b)"
    using Nil by (cases b) auto
  then show ?case
    using Nil by (subst split_from.simps) (simp add: split_from_no_newline)
next
  case (Cons c a)
  then show ?case
    by (subst split_from.simps) simp
qed

lemma lines_from_no_break:
  "\<forall>c\<in>set s. \<not> is_linebreak c \<Longrightarrow>
   lines_from cur s = (if cur @ s = [] then [] else [cur @ s])"
  by (induction s arbitrary: cur) auto

lemma lines_from_newline:
  "\<forall>c\<in>set a. \<not> is_linebreak c \<Longrightarrow>
   lines_from cur (a @ 10 # b) = (cur @ a) # lines_from [] b"
proof (induction a arbitrary: cur)
  case Nil
  have "is_linebreak 10" by (simp add: is_linebreak_def)
  then show ?case by (cases b) auto
next
  case (Cons c a)
  then show ?case by simp
qed

lemma data_prefix_line:
  "is_data_line (py ''data:'' @ r)" "after_colon (py ''data:'' @ r) = r"
  by (simp_all add: is_data_line_def after_colon_def py_startswith_def py_lower_def
      lower_cp_def py_def)

lemma rstrip_idem: "py_rstrip (py_rstrip s) = py_rstrip s"
  by (simp add: py_rstrip_def)

lemma strip_data: "py_strip (py ''data:'' @ v) = py ''data:'' @ py_rstrip v"
proof -
  have d: "py ''data:'' = [100, 97, 116, 97, 58]"
    by (simp add: py_def)
  have n: "\<not> is_space 100" "\<not> is_space 58"
    by (simp_all add: is_space_def)
  have "py_lstrip (py ''data:'' @ v) = py ''data:'' @ v"
    using n by (simp add: py_lstrip_def d)
  moreover have "py_rstrip ([100, 97, 116, 97] @ 58 # v) = [100, 97, 116, 97] @ 58 # py_rstrip v"
    using n(2) by (rule rstrip_append_nonspace)
  ultimately show ?thesis
    by (simp add: py_strip_def d)
qed

lemma data_value: "py_lstrip (py_rstrip (32 # l)) = py_strip l"
proof -
  have "is_space 32"
    by (simp add: is_space_def)
  then have "py_lstrip (32 # l) = py_lstrip l"
    by (simp add: py_lstrip_def)
  then show ?thesis
    by (simp add: lstrip_rstrip_commute py_strip_def)
qed

lemma stream_shape:
  "sse_stream l1 l2 = py ''data:'' @ (32 # l1 @ 10 # py ''data:'' @ 32 # l2) @ [10, 10]"
  by (simp add: sse_stream_def py_def)

lemma rstrip_data_tail:
  "py_rstrip (32 # l1 @ 10 # py ''data:'' @ v) = 32 # l1 @ 10 # py ''data:'' @ py_rstrip v"
proof -
  have d: "py ''data:'' = [100, 97, 116, 97, 58]"
    by (simp add: py_def)
  have "\<not> is_space 58"
    by (simp add: is_space_def)
  then have "py_rstrip ((32 # l1 @ 10 # [100, 97, 116, 97]) @ 58 # v)
      = (32 # l1 @ 10 # [100, 97, 116, 97]) @ 58 # py_rstrip v"
    by (rule rstrip_append_nonspace)
  then show ?thesis
    by (simp add: d)
qed

lemma strip_stream:
  "py_strip (sse_stream l1 l2) =
     py ''data:'' @ 32 # l1 @ 10 # py ''data:'' @ py_rstrip (32 # l2)"
proof -
  have "is_space 10"
    by (simp add: is_space_def)
  then have "py_rstrip ((32 # l1 @ 10 # py ''data:'' @ 32 # l2) @ [10, 10])
      = py_rstrip (32 # l1 @ 10 # py ''data:'' @ 32 # l2)"
    by (intro rstrip_append_space) simp
  then show ?thesis
    unfolding stream_shape strip_data using rstrip_data_tail [of l1 "32 # l2"] by simp
qed

lemma stream_data_lines:
  assumes "\<forall>c\<in>set l1. \<not> is_linebreak c" and "\<forall>c\<in>set l2. \<not> is_linebreak c"
  shows "sse_segments (py_strip (sse_stream l1 l2)) = [py_strip (sse_stream l1 l2)]"
    and "data_lines (py_strip (sse_stream l1 l2)) = [py_strip l1, py_strip l2]"
proof -
  let ?A = "py ''data:'' @ 32 # l1"
  let ?B = "py ''data:'' @ py_rstrip (32 # l2)"
  let ?T = "py_strip (sse_stream l1 l2)"
  have d: "py ''data:'' = [100, 97, 116, 97, 58]"
    by (simp add: py_def)
  have T: "?T = ?A @ 10 # ?B"
    by (simp add: strip_stream)
  have lb: "is_linebreak 10" "is_linebreak 13" "\<not> is_linebreak 32"
    by (simp_all add: is_linebreak_def)
  have r2: "\<forall>c\<in>set (py_rstrip (32 # l2)). \<not> is_linebreak c"
    using set_rstrip [of "32 # l2"] assms(2) lb(3) by auto
  have A: "\<forall>c\<in>set ?A. \<not> is_linebreak c"
    using assms(1) by (auto simp: d is_linebreak_def)
  have B: "\<forall>c\<in>set ?B. \<not> is_linebreak c"
    using r2 by (auto simp: d is_linebreak_def)
  have nl: "10 \<notin> set ?A" "10 \<notin> set ?B" "13 \<notin> set ?A" "13 \<notin> set ?B"
    using A B lb by blast+
  have "\<forall>x\<in>set (?A @ 10 # ?B). x \<noteq> 13"
    using nl(3,4) by auto
  then have "filter (\<lambda>x. x \<noteq> 13) (?A @ 10 # ?B) = ?A @ 10 # ?B"
    by (rule filter_True)
  then have "py_remove_char 13 ?T = ?T"
    unfolding T py_remove_char_def .
  moreover have "py_split [10, 10] ?T = [?T]"
    unfolding T py_split_def using split_from_one_newline [OF nl(1,2), of "[]"] by simp
  moreover have "py_strip ?T = ?T"
    by (rule strip_idem)
  moreover have "?T \<noteq> []"
    by (simp add: T d)
  ultimately show "sse_segments ?T = [?T]"
    by (simp add: sse_segments_def)
  have "py_splitlines ?T = [?A, ?B]"
    unfolding T py_splitlines_def
    using lines_from_newline [OF A, of "[]" ?B] lines_from_no_break [OF B, of "[]"]
    by (simp add: d)
  moreover have "py_strip ?A = py ''data:'' @ py_rstrip (32 # l1)"
    by (rule strip_data)
  moreover have "py_strip ?B = ?B"
    by (simp add: strip_data rstrip_idem)
  ultimately show "data_lines ?T = [py_strip l1, py_strip l2]"
    by (simp add: data_lines_def data_prefix_line data_value)
qed

lemma sample_table_loads:
  "loads (sample_lib sample_table) (py ''{}'') = Some (JDict [])"
  "loads (sample_lib sample_table) (py ''{'' @ [10] @ py ''}'') = Some (JDict [])"
  "dumps (sample_lib sample_table) (JDict []) = py ''{}''"
  by (simp_all add: sample_lib_def sample_table_def py_def)

lemma strip_braces:
  "py_strip (py ''{}'') = py ''{}''" "py_strip (py ''{'') = py ''{''"
  "py_strip (py ''}'') = py ''}''" "py ''{}'' \<noteq> []"
  by (simp_all add: py_strip_def py_lstrip_def py_rstrip_def is_space_def py_def)

lemma sample_stream_not_json:
  "loads (sample_lib sample_table) (py_strip (sse_stream (py ''{'') (py ''}''))) = None"
  by (simp add: strip_stream) (simp add: sample_lib_def sample_table_def py_def py_rstrip_def
      is_space_def)

section \<open>Decoding: event streams\<close>


















section \<open>Decoding: round trips\<close>

lemma sample_stream_trimmed:
  "py_strip (sse_stream sample_line1 sample_line2) =
     [100, 97, 116, 97, 58, 32, 123, 34, 97, 34, 58, 10,
      100, 97, 116, 97, 58, 32, 34, 120, 8232, 121, 34, 125]"
  by (simp add: strip_stream) (simp add: py_def sample_line1_def sample_line2_def quoted_def
      py_rstrip_def is_space_def)

lemma sample_stream_segments:
  "sse_segments [100, 97, 116, 97, 58, 32, 123, 34, 97, 34, 58, 10,
      100, 97, 116, 97, 58, 32, 34, 120, 8232, 121, 34, 125] =
   [[100, 97, 116, 97, 58, 32, 123, 34, 97, 34, 58, 10,
      100, 97, 116, 97, 58, 32, 34, 120, 8232, 121, 34, 125]]"
proof -
  have "py_split [10, 10] ([100, 97, 116, 97, 58, 32, 123, 34, 97, 34, 58] @ 10 #
          [100, 97, 116, 97, 58, 32, 34, 120, 8232, 121, 34, 125])
        = [[100, 97, 116, 97, 58, 32, 123, 34, 97, 34, 58] @ 10 #
          [100, 97, 116, 97, 58, 32, 34, 120, 8232, 121, 34, 125]]"
    unfolding py_split_def by (subst split_from_one_newline) simp_all
  then show ?thesis
    by (simp add: sse_segments_def py_remove_char_def py_strip_def py_lstrip_def py_rstrip_def
        is_space_def)
qed

lemma sample_stream_data_lines:
  "data_lines [100, 97, 116, 97, 58, 32, 123, 34, 97, 34, 58, 10,
      100, 97, 116, 97, 58, 32, 34, 120, 8232, 121, 34, 125] =
   [[123, 34, 97, 34, 58], [34, 120]]"
  by (simp add: data_lines_def py_splitlines_def is_linebreak_def is_data_line_def
      after_colon_def py_startswith_def py_lower_def lower_cp_def py_strip_def py_lstrip_def
      py_rstrip_def is_space_def py_def)

text \<open>
  Where no line holds a character at which \<^verbatim>\<open>splitlines\<close> ends a line, the decoder
  inverts both wire formats: the serialization of a response object decodes to the object,
  given that the JSON library parses the serialization to it, and the stream
  \<^verbatim>\<open>data: <line1>\ndata: <line2>\n\n\<close> decodes to what the JSON library makes of the
  two lines, stripped as the decoder strips them and joined by a newline.
\<close>

lemma decode_round_trip:
  "(py_strip (dumps lib R) \<noteq> [] \<and> loads lib (py_strip (dumps lib R)) = Some R \<longrightarrow>
      parse_response_text lib (dumps lib R) = Inr R)
   \<and> ((\<forall>c\<in>set l1 \<union> set l2. \<not> is_linebreak c)
       \<and> loads lib (py_strip (sse_stream l1 l2)) = None
       \<and> loads lib (py_join [10] [py_strip l1, py_strip l2]) = Some P \<longrightarrow>
      parse_response_text lib (sse_stream l1 l2) = Inr P)"
proof (intro conjI impI)
  assume "py_strip (dumps lib R) \<noteq> [] \<and> loads lib (py_strip (dumps lib R)) = Some R"
  then show "parse_response_text lib (dumps lib R) = Inr R"
    by (simp add: parse_response_text_def)
next
  assume a: "(\<forall>c\<in>set l1 \<union> set l2. \<not> is_linebreak c)
       \<and> loads lib (py_strip (sse_stream l1 l2)) = None
       \<and> loads lib (py_join [10] [py_strip l1, py_strip l2]) = Some P"
  then have l: "\<forall>c\<in>set l1. \<not> is_linebreak c" "\<forall>c\<in>set l2. \<not> is_linebreak c"
    by auto
  have ne: "py_strip (sse_stream l1 l2) \<noteq> []"
    by (simp add: strip_stream py_def)
  have "parse_sse_payload lib (py_strip (sse_stream l1 l2)) = Inr P"
    using a by (simp add: parse_sse_payload_def stream_data_lines [OF l])
  then show "parse_response_text lib (sse_stream l1 l2) = Inr P"
    using a ne by (simp add: parse_response_text_def)
qed

lemma decode_round_trip_sample:
  "dumps (sample_lib sample_table) (JDict []) = py ''{}''
   \<and> parse_response_text (sample_lib sample_table) (dumps (sample_lib sample_table) (JDict []))
       = Inr (JDict [])
   \<and> loads (sample_lib sample_table) (py_join [10] [py ''{'', py ''}'']) = Some (JDict [])
   \<and> parse_response_text (sample_lib sample_table) (sse_stream (py ''{'') (py ''}''))
       = Inr (JDict [])"
proof -
  have lb: "\<forall>c\<in>set (py ''{'') \<union> set (py ''}''). \<not> is_linebreak c"
    by (simp add: py_def is_linebreak_def)
  have j: "loads (sample_lib sample_table) (py_join [10] [py ''{'', py ''}'']) = Some (JDict [])"
    using sample_table_loads(2) by simp
  show ?thesis
    using decode_round_trip [of "sample_lib sample_table" "JDict []" "py ''{''" "py ''}''"
        "JDict []"] lb j sample_stream_not_json sample_table_loads
    by (simp add: strip_braces)
qed

text \<open>
  C5: the code misses the claim on event streams.  A JSON string may hold the line
  separator U+2028 unescaped.  The two sample lines hold no newline and no carriage
  return, and joined by a newline they are a JSON text of the sample payload, which the
  plain-JSON path decodes.  But the stream \<^verbatim>\<open>data: <line1>\ndata: <line2>\n\n\<close> made
  of them does not decode to the payload: \<^verbatim>\<open>splitlines\<close> also ends a line at the
  separator, so the second data line is cut there, the rest, which does not start with
  \<^verbatim>\<open>data:\<close>, is dropped, what is left does not parse, and the decoder raises the
  no-payload error.
\<close>

theorem sse_round_trip_fails_on_line_separator:
  "10 \<notin> set sample_line1 \<union> set sample_line2
   \<and> 13 \<notin> set sample_line1 \<union> set sample_line2
   \<and> loads (sample_lib [(py_join [10] [sample_line1, sample_line2], sample_payload)])
       (py_join [10] [sample_line1, sample_line2]) = Some sample_payload
   \<and> parse_response_text
        (sample_lib [(py_join [10] [sample_line1, sample_line2], sample_payload)])
        (py_join [10] [sample_line1, sample_line2]) = Inr sample_payload
   \<and> parse_response_text
        (sample_lib [(py_join [10] [sample_line1, sample_line2], sample_payload)])
        (sse_stream sample_line1 sample_line2) = Inl (EntrezSDKError NoSSEPayload)"
proof -
  have j: "py_join [10] [sample_line1, sample_line2] =
      [123, 34, 97, 34, 58, 10, 34, 120, 8232, 121, 34, 125]"
    by (simp add: sample_line1_def sample_line2_def quoted_def py_def)
  have nl: "10 \<notin> set sample_line1 \<union> set sample_line2"
    "13 \<notin> set sample_line1 \<union> set sample_line2"
    by (simp_all add: sample_line1_def sample_line2_def quoted_def py_def)
  have t: "py_strip [123, 34, 97, 34, 58, 10, 34, 120, 8232, 121, 34, 125] =
      [123, 34, 97, 34, 58, 10, 34, 120, 8232, 121, 34, 125]"
    by (simp add: py_strip_def py_lstrip_def py_rstrip_def is_space_def)
  have plain: "parse_response_text
        (sample_lib [([123, 34, 97, 34, 58, 10, 34, 120, 8232, 121, 34, 125], sample_payload)])
        [123, 34, 97, 34, 58, 10, 34, 120, 8232, 121, 34, 125] = Inr sample_payload"
    by (simp add: parse_response_text_def t sample_lib_def)
  have stream: "parse_response_text
        (sample_lib [([123, 34, 97, 34, 58, 10, 34, 120, 8232, 121, 34, 125], sample_payload)])
        (sse_stream sample_line1 sample_line2) = Inl (EntrezSDKError NoSSEPayload)"
    by (simp add: parse_response_text_def parse_sse_payload_def sample_stream_trimmed
        sample_stream_segments sample_stream_data_lines sample_lib_def)
  show ?thesis
    using nl plain stream unfolding j by (simp add: sample_lib_def)
qed

end
